theory Spec2Isabelle
  imports Main
begin

section \<open>Strings, \<open>split\<close> and \<open>join\<close>\<close>

text \<open>
  Source: \<^verbatim>\<open>apps/frontend/components/builder/forms/generic-list-form.tsx\<close>, which holds
  the two form components \<^verbatim>\<open>GenericListForm\<close> and \<^verbatim>\<open>PersonalInfoForm\<close>.

  A JavaScript string is a finite sequence of code units; it is modelled as a \<open>string\<close>
  (a list of characters). The only code unit the code looks at is the line feed
  \<^verbatim>\<open>'\n'\<close> (U+000A), which is a single unit in the source's strings and in the model.
\<close>

definition LF :: char where
  "LF = CHR 0x0A"

text \<open>
  \<^verbatim>\<open>String.prototype.split(sep)\<close> for a separator of one code unit: the substrings
  between the occurrences of the separator, in order. A string without the separator
  (the empty string too) gives one segment, the string itself.
\<close>

fun split_js :: "char \<Rightarrow> string \<Rightarrow> string list" where
  "split_js sep [] = [[]]"
| "split_js sep (c # cs) =
     (if c = sep then [] # split_js sep cs
      else (case split_js sep cs of
              [] \<Rightarrow> [[c]]
            | seg # segs \<Rightarrow> (c # seg) # segs))"

text \<open>
  \<^verbatim>\<open>Array.prototype.join(sep)\<close> on an array of strings: the elements concatenated with
  the separator between neighbours; the empty array gives the empty string.
\<close>

fun join_js :: "char \<Rightarrow> string list \<Rightarrow> string" where
  "join_js sep [] = []"
| "join_js sep [x] = x"
| "join_js sep (x # y # ys) = x @ sep # join_js sep (y # ys)"

section \<open>GenericListForm\<close>

text \<open>
  \<^verbatim>\<open>const textValue = items?.join('\n') || '';\<close>

  The prop \<^verbatim>\<open>items\<close> may be absent at run time (\<open>None\<close> stands for \<^verbatim>\<open>null\<close> and
  \<^verbatim>\<open>undefined\<close>): the optional chaining then gives \<^verbatim>\<open>undefined\<close>, which is falsy, as
  is the empty string, and \<^verbatim>\<open>||\<close> replaces a falsy left operand by \<^verbatim>\<open>''\<close>.
\<close>

definition textValue :: "string list option \<Rightarrow> string" where
  "textValue items =
     (case items of
        None \<Rightarrow> ''''
      | Some xs \<Rightarrow> (let joined = join_js LF xs in if joined = [] then '''' else joined))"

text \<open>
  \<^verbatim>\<open>const handleChange = useCallback((value: string) => { onChange(value.split('\n')); }, [onChange]);\<close>

  The prop \<^verbatim>\<open>onChange\<close> belongs to the parent. The handler is modelled by its effect on
  the log of the calls made to \<^verbatim>\<open>onChange\<close>, oldest first: each entry is the argument
  of one call.
\<close>

definition GenericListForm_handleChange :: "string \<Rightarrow> string list list \<Rightarrow> string list list" where
  "GenericListForm_handleChange val calls = calls @ [split_js LF val]"

section \<open>PersonalInfoForm\<close>

text \<open>
  Modelled from the spec: the interface \<^verbatim>\<open>PersonalInfo\<close>, imported from
  \<^verbatim>\<open>@/components/dashboard/resume-component\<close>, whose declaration is not in this file.
  The spec gives it as a flat mapping of named optional text fields (name, title, email,
  phone, location, gender, age, website, linkedin, github, avatar); these are also the
  keys the form reads and writes. \<open>field\<close> is \<^verbatim>\<open>keyof PersonalInfo\<close>.
\<close>

datatype field =
  Name | Title | Email | Phone | Location | Gender | Age | Website | Linkedin | Github | Avatar

text \<open>
  A value typed \<^verbatim>\<open>string\<close> or \<^verbatim>\<open>string | null\<close>. The cast
  \<^verbatim>\<open>reader.result as string\<close> checks nothing at run time, so \<^verbatim>\<open>null\<close> can reach
  the places typed \<^verbatim>\<open>string\<close>.
\<close>

datatype strval = Null | Str string

text \<open>
  An object is a partial map from keys to values: a key outside the domain is a
  property the object does not have (reading it gives \<^verbatim>\<open>undefined\<close>). Objects live in
  a store and are passed by address, so that the object built by a handler and the
  snapshot it was built from can be told apart.
\<close>

type_synonym PersonalInfo = "field \<rightharpoonup> strval"

type_synonym addr = nat

datatype js_file = File string

text \<open>
  The state the handlers of one mounted form act on:
  \<^item> \<open>store\<close>, \<open>next_addr\<close>: the objects allocated so far, and the next free address;
  \<^item> \<open>avatarPreview\<close>: the \<^verbatim>\<open>useState<string | null>\<close> cell;
  \<^item> \<open>fileInput\<close>: \<^verbatim>\<open>fileInputRef.current\<close>, \<open>None\<close> for \<^verbatim>\<open>null\<close> and \<open>Some v\<close> for
    the mounted file input whose \<^verbatim>\<open>value\<close> is \<open>v\<close>;
  \<^item> \<open>onChange_calls\<close>: the arguments of the calls made to the \<^verbatim>\<open>onChange\<close> prop,
    oldest first;
  \<^item> \<open>readers\<close>: the \<^verbatim>\<open>FileReader\<close>s whose read is under way, each with its file and
    with the \<^verbatim>\<open>data\<close> prop its \<^verbatim>\<open>onloadend\<close> closure has captured.
  The props of a render are parameters of its handlers: \<open>d\<close> is the address of
  \<^verbatim>\<open>data\<close>.
\<close>

record form =
  store :: "addr \<Rightarrow> PersonalInfo"
  next_addr :: addr
  avatarPreview :: strval
  fileInput :: "string option"
  onChange_calls :: "addr list"
  readers :: "(js_file \<times> addr) list"

text \<open>
  \<^verbatim>\<open>const handleChange = (field: keyof PersonalInfo, value: string) => {
    onChange({ ...data, [field]: value });
  };\<close>

  The object literal allocates a new object, copies the properties of \<^verbatim>\<open>data\<close> into
  it and then sets the one key; \<^verbatim>\<open>onChange\<close> is called with the new object.
\<close>

definition PersonalInfoForm_handleChange :: "addr \<Rightarrow> field \<Rightarrow> strval \<Rightarrow> form \<Rightarrow> form" where
  "PersonalInfoForm_handleChange d fld val s =
     s\<lparr>store := (store s)(next_addr s := (store s d)(fld \<mapsto> val)),
       next_addr := Suc (next_addr s),
       onChange_calls := onChange_calls s @ [next_addr s]\<rparr>"

text \<open>
  \<^verbatim>\<open>reader.onloadend = () => {
    const base64 = reader.result as string;
    setAvatarPreview(base64);
    handleChange('avatar', base64);
  };\<close>

  \<open>result\<close> is \<^verbatim>\<open>reader.result\<close> at the time the closure runs.
\<close>

definition onloadend :: "addr \<Rightarrow> strval \<Rightarrow> form \<Rightarrow> form" where
  "onloadend d result s =
     PersonalInfoForm_handleChange d Avatar result (s\<lparr>avatarPreview := result\<rparr>)"

text \<open>
  \<^verbatim>\<open>const file = e.target.files?.[0];\<close>: \<^verbatim>\<open>files\<close> is \<^verbatim>\<open>null\<close> (\<open>None\<close>) or a list of
  files, and index 0 of an empty list is \<^verbatim>\<open>undefined\<close>.
\<close>

definition first_file :: "js_file list option \<Rightarrow> js_file option" where
  "first_file files =
     (case files of
        None \<Rightarrow> None
      | Some fs \<Rightarrow> (case fs of [] \<Rightarrow> None | f # _ \<Rightarrow> Some f))"

text \<open>
  \<^verbatim>\<open>const handleAvatarUpload = (e) => {
    const file = e.target.files?.[0];
    if (file) {
      const reader = new FileReader();
      reader.onloadend = ...;
      reader.readAsDataURL(file);
    }
  };\<close>

  With a file, a reader is started; its closure holds the \<^verbatim>\<open>data\<close> of this render.
\<close>

definition handleAvatarUpload :: "addr \<Rightarrow> js_file list option \<Rightarrow> form \<Rightarrow> form" where
  "handleAvatarUpload d files s =
     (case first_file files of
        None \<Rightarrow> s
      | Some f \<Rightarrow> s\<lparr>readers := readers s @ [(f, d)]\<rparr>)"

text \<open>
  The platform's side of \<^verbatim>\<open>readAsDataURL\<close> (File API): when the read of a reader has
  completed, successfully or not, the platform fires \<^verbatim>\<open>loadend\<close> at the reader, which
  runs its \<^verbatim>\<open>onloadend\<close>. After a successful read \<^verbatim>\<open>reader.result\<close> is the data URL
  (\<open>Str url\<close>); after a failed one it is \<^verbatim>\<open>null\<close>. \<open>FileReader_loadend i result\<close> is
  that event for the \<open>i\<close>-th reader under way.
\<close>

definition FileReader_loadend :: "nat \<Rightarrow> strval \<Rightarrow> form \<Rightarrow> form" where
  "FileReader_loadend i result s =
     (if i < length (readers s)
      then onloadend (snd (readers s ! i)) result
             (s\<lparr>readers := take i (readers s) @ drop (Suc i) (readers s)\<rparr>)
      else s)"

text \<open>
  \<^verbatim>\<open>const handleRemoveAvatar = () => {
    setAvatarPreview(null);
    handleChange('avatar', '');
    if (fileInputRef.current) {
      fileInputRef.current.value = '';
    }
  };\<close>
\<close>

definition handleRemoveAvatar :: "addr \<Rightarrow> form \<Rightarrow> form" where
  "handleRemoveAvatar d s =
     (let s1 = s\<lparr>avatarPreview := Null\<rparr>;
          s2 = PersonalInfoForm_handleChange d Avatar (Str '''') s1
      in case fileInput s2 of
           None \<Rightarrow> s2
         | Some _ \<Rightarrow> s2\<lparr>fileInput := Some ''''\<rparr>)"

section \<open>Example states\<close>

text \<open>
  A freshly mounted form in the Empty state: \<^verbatim>\<open>data\<close>, at address 0, is the record
  \<^verbatim>\<open>{name: "", email: "a@b.com"}\<close>; there is no preview, the file input is mounted
  with an empty value, and no call and no read have been made.
\<close>

definition empty_form :: form where
  "empty_form =
     \<lparr>store = (\<lambda>_. Map.empty)(0 := [Name \<mapsto> Str '''', Email \<mapsto> Str ''a@b.com'']),
      next_addr = 1, avatarPreview = Null, fileInput = Some '''',
      onChange_calls = [], readers = []\<rparr>"

text \<open>
  A form in the Loaded state: \<^verbatim>\<open>data\<close>, at address 0, carries an avatar, the preview
  shows it, and the file input still names the selected file.
\<close>

definition loaded_form :: form where
  "loaded_form =
     \<lparr>store = (\<lambda>_. Map.empty)
                (0 := [Name \<mapsto> Str ''Ann'', Avatar \<mapsto> Str ''data:image/png;base64,iVBORw0KGgo='']),
      next_addr = 1, avatarPreview = Str ''data:image/png;base64,iVBORw0KGgo='',
      fileInput = Some ''a.png'', onChange_calls = [], readers = []\<rparr>"

section \<open>Properties of \<open>split\<close> and \<open>join\<close>\<close>

lemma split_js_not_Nil: "split_js sep s \<noteq> []"
  by (induction s) (auto split: list.splits)

lemma textValue_Some: "textValue (Some xs) = join_js LF xs"
  by (simp add: textValue_def Let_def)

lemma split_js_single: "sep \<notin> set x \<Longrightarrow> split_js sep x = [x]"
  by (induction x) auto

lemma split_js_append_sep:
  "sep \<notin> set x \<Longrightarrow> split_js sep (x @ sep # r) = x # split_js sep r"
  by (induction x) auto

lemma split_js_join_js:
  "xs \<noteq> [] \<Longrightarrow> \<forall>x\<in>set xs. sep \<notin> set x \<Longrightarrow> split_js sep (join_js sep xs) = xs"
proof (induction sep xs rule: join_js.induct)
  case (1 sep)
  then show ?case by simp
next
  case (2 sep x)
  then show ?case by (simp add: split_js_single)
next
  case (3 sep x y ys)
  then have "sep \<notin> set x" and "split_js sep (join_js sep (y # ys)) = y # ys"
    by simp_all
  then show ?case by (simp add: split_js_append_sep)
qed

lemma join_js_split_js: "join_js sep (split_js sep s) = s"
proof (induction s)
  case Nil
  show ?case by simp
next
  case (Cons c cs)
  show ?case
  proof (cases "split_js sep cs")
    case Nil
    with split_js_not_Nil show ?thesis by blast
  next
    case (Cons seg segs)
    with Cons.IH show ?thesis by (cases segs) auto
  qed
qed

lemma split_js_no_sep: "seg \<in> set (split_js sep s) \<Longrightarrow> sep \<notin> set seg"
  by (induction s arbitrary: seg) (auto split: if_splits list.splits)

lemma length_split_js: "length (split_js sep s) = Suc (count_list s sep)"
  by (induction s) (auto split: list.splits simp: split_js_not_Nil)

text \<open>
  C1, as amended. For every non-empty sequence \<open>S\<close> of strings none of which contains
  a line feed, splitting the text value derived from \<open>S\<close> gives \<open>S\<close> back, and that
  is the array the change handler passes to \<^verbatim>\<open>onChange\<close>.
\<close>

theorem C1_roundtrip_nonempty:
  assumes "S \<noteq> []" and "\<forall>x\<in>set S. LF \<notin> set x"
  shows "split_js LF (textValue (Some S)) = S
         \<and> GenericListForm_handleChange (textValue (Some S)) calls = calls @ [S]"
  using assms by (simp add: textValue_Some split_js_join_js GenericListForm_handleChange_def)

theorem C1_roundtrip_nonempty_witness:
  "[''Python'', ''Go'', ''Rust''] \<noteq> []
   \<and> LF \<notin> set ''Python'' \<and> LF \<notin> set ''Go'' \<and> LF \<notin> set ''Rust''
   \<and> split_js LF (textValue (Some [''Python'', ''Go'', ''Rust''])) = [''Python'', ''Go'', ''Rust'']
   \<and> GenericListForm_handleChange (textValue (Some [''Python'', ''Go'', ''Rust''])) []
       = [[''Python'', ''Go'', ''Rust'']]"
proof -
  have ne: "[''Python'', ''Go'', ''Rust''] \<noteq> []" by simp
  have nl: "\<forall>x\<in>set [''Python'', ''Go'', ''Rust'']. LF \<notin> set x" by (simp add: LF_def)
  show ?thesis using ne nl C1_roundtrip_nonempty [OF ne nl, of "[]"] by simp
qed

text \<open>
  C1 as stated fails at the empty sequence, which has no element with a line feed:
  its text value is the empty string, and splitting that gives one empty segment.
\<close>

theorem C1_roundtrip_counterexample:
  "split_js LF (textValue (Some [])) = [''''] \<and> split_js LF (textValue (Some [])) \<noteq> []"
  by (simp add: textValue_def)

text \<open>
  C9. For every string \<open>t\<close>, joining the segments of \<open>t\<close> (with the fallback to the
  empty string applied) gives \<open>t\<close> back: the array the change handler passes to
  \<^verbatim>\<open>onChange\<close>, handed back as the \<^verbatim>\<open>items\<close> prop, displays the text that was
  entered.
\<close>

theorem C9_join_split_roundtrip:
  "textValue (Some (split_js LF t)) = t
   \<and> textValue (Some (last (GenericListForm_handleChange t calls))) = t"
  by (simp add: textValue_Some join_js_split_js GenericListForm_handleChange_def)

text \<open>
  C7. For every string entered in the text area, the change handler makes exactly one
  call to \<^verbatim>\<open>onChange\<close>, within the handler itself (the earlier calls are untouched and
  nothing is left pending), with the whole array of the segments of that string: no
  segment is dropped or altered (joining them gives the string back, and there is one
  segment more than there are line feeds), and none contains a line feed.
\<close>

theorem C7_handleChange_calls_once:
  "GenericListForm_handleChange t calls = calls @ [split_js LF t]
   \<and> length (GenericListForm_handleChange t calls) = Suc (length calls)
   \<and> take (length calls) (GenericListForm_handleChange t calls) = calls
   \<and> join_js LF (last (GenericListForm_handleChange t calls)) = t
   \<and> length (last (GenericListForm_handleChange t calls)) = Suc (count_list t LF)
   \<and> (\<forall>seg\<in>set (last (GenericListForm_handleChange t calls)). LF \<notin> set seg)"
  by (auto simp: GenericListForm_handleChange_def join_js_split_js length_split_js
           dest: split_js_no_sep)

theorem C7_handleChange_calls_once_witness:
  "GenericListForm_handleChange (''Python'' @ LF # ''Go'') [] = [[''Python'', ''Go'']]
   \<and> join_js LF (last (GenericListForm_handleChange (''Python'' @ LF # ''Go'') []))
       = ''Python'' @ LF # ''Go''
   \<and> LF \<notin> set ''Python'' \<and> LF \<notin> set ''Go''"
  using C7_handleChange_calls_once [of "''Python'' @ LF # ''Go''" "[]"]
  by (simp add: LF_def)

text \<open>
  C4.\<open>toText\<close> of the empty sequence is the empty string, and \<open>fromText\<close> of the empty
  string is the one-element sequence holding the empty string: the two directions
  differ at the empty case.
\<close>

theorem C4_empty_asymmetry:
  "textValue (Some []) = '''' \<and> split_js LF '''' = ['''']
   \<and> GenericListForm_handleChange '''' [] = [['''']]
   \<and> split_js LF (textValue (Some [])) \<noteq> []"
  by (simp add: textValue_def GenericListForm_handleChange_def)

text \<open>
  C8. For every input string, the empty one included, \<open>fromText\<close> gives a non-empty
  sequence: the array passed to \<^verbatim>\<open>onChange\<close> has at least one segment.
\<close>

theorem C8_split_nonempty:
  "split_js LF t \<noteq> [] \<and> last (GenericListForm_handleChange t calls) \<noteq> []
   \<and> 1 \<le> length (split_js LF t)"
  using split_js_not_Nil [of LF t]
  by (cases "split_js LF t") (simp_all add: GenericListForm_handleChange_def)

text \<open>
  C10. When the \<^verbatim>\<open>items\<close> prop is absent (\<^verbatim>\<open>null\<close> or \<^verbatim>\<open>undefined\<close>), the derived
  text value is the empty string: the derivation raises no error on absent input.
\<close>

theorem C10_textValue_absent:
  "textValue None = ''''"
  by (simp add: textValue_def)

section \<open>Properties of the handlers of PersonalInfoForm\<close>

lemma handleChange_store_new:
  "store (PersonalInfoForm_handleChange d F v s) (next_addr s) = (store s d)(F \<mapsto> v)"
  by (simp add: PersonalInfoForm_handleChange_def)

lemma handleChange_store_old:
  "a \<noteq> next_addr s \<Longrightarrow> store (PersonalInfoForm_handleChange d F v s) a = store s a"
  by (simp add: PersonalInfoForm_handleChange_def)

lemma handleChange_calls:
  "onChange_calls (PersonalInfoForm_handleChange d F v s) = onChange_calls s @ [next_addr s]"
  by (simp add: PersonalInfoForm_handleChange_def)

lemma handleChange_local_state:
  "avatarPreview (PersonalInfoForm_handleChange d F v s) = avatarPreview s
   \<and> fileInput (PersonalInfoForm_handleChange d F v s) = fileInput s
   \<and> readers (PersonalInfoForm_handleChange d F v s) = readers s"
  by (simp add: PersonalInfoForm_handleChange_def)

text \<open>
  C2. For every snapshot \<^verbatim>\<open>data\<close> (an allocated object, at address \<open>d\<close>), every field
  \<open>F\<close> and every string \<open>V\<close>, \<^verbatim>\<open>handleChange(F, V)\<close> makes one call to \<^verbatim>\<open>onChange\<close>,
  with a new object (its address differs from \<open>d\<close>) whose field \<open>F\<close> is \<open>V\<close> and whose
  other fields are those of the snapshot; the snapshot, like every object allocated
  before, is the same after the call as before it.
\<close>

theorem C2_handleChange_frame:
  assumes "d < next_addr s"
  shows "onChange_calls (PersonalInfoForm_handleChange d F (Str V) s)
           = onChange_calls s @ [next_addr s]
     \<and> next_addr s \<noteq> d
     \<and> store (PersonalInfoForm_handleChange d F (Str V) s) (next_addr s) F = Some (Str V)
     \<and> (\<forall>F'. F' \<noteq> F \<longrightarrow>
           store (PersonalInfoForm_handleChange d F (Str V) s) (next_addr s) F' = store s d F')
     \<and> store (PersonalInfoForm_handleChange d F (Str V) s) d = store s d
     \<and> (\<forall>a. a < next_addr s \<longrightarrow>
           store (PersonalInfoForm_handleChange d F (Str V) s) a = store s a)"
  using assms
  by (simp add: handleChange_calls handleChange_store_new handleChange_store_old)

theorem C2_handleChange_frame_witness:
  "(0::nat) < next_addr empty_form
   \<and> onChange_calls (PersonalInfoForm_handleChange 0 Name (Str ''Ann'') empty_form) = [1]
   \<and> store (PersonalInfoForm_handleChange 0 Name (Str ''Ann'') empty_form) 1 Name
       = Some (Str ''Ann'')
   \<and> Email \<noteq> Name
   \<and> store (PersonalInfoForm_handleChange 0 Name (Str ''Ann'') empty_form) 1 Email
       = Some (Str ''a@b.com'')
   \<and> store (PersonalInfoForm_handleChange 0 Name (Str ''Ann'') empty_form) 0 Name
       = Some (Str '''')"
proof -
  have h: "0 < next_addr empty_form" by (simp add: empty_form_def)
  show ?thesis
    using h C2_handleChange_frame [OF h, of Name "''Ann''"]
    by (simp add: empty_form_def)
qed

text \<open>
  The part of C3 that the code satisfies: when no file is selected (\<^verbatim>\<open>files\<close> is
  \<^verbatim>\<open>null\<close> or empty), \<^verbatim>\<open>handleAvatarUpload\<close> changes nothing and starts no read.
\<close>

lemma handleAvatarUpload_no_file:
  "handleAvatarUpload d None s = s \<and> handleAvatarUpload d (Some []) s = s"
  by (simp add: handleAvatarUpload_def first_file_def)

text \<open>
  What the completion handler does after a failed read, in any state: it sets the
  preview to \<^verbatim>\<open>null\<close> and calls \<^verbatim>\<open>onChange\<close> with a new record whose avatar is
  \<^verbatim>\<open>null\<close>.
\<close>

lemma onloadend_failed_read:
  "avatarPreview (onloadend d Null s) = Null
   \<and> onChange_calls (onloadend d Null s) = onChange_calls s @ [next_addr s]
   \<and> store (onloadend d Null s) (next_addr s) Avatar = Some Null"
  by (simp add: onloadend_def PersonalInfoForm_handleChange_def)

text \<open>
  C3 on the code. A file is selected in the Empty state and its read fails: the
  completion handler runs all the same, \<^verbatim>\<open>onChange\<close> is called once, and the record it
  receives differs from \<^verbatim>\<open>data\<close>: its avatar is \<^verbatim>\<open>null\<close>, where \<^verbatim>\<open>data\<close> has none.
  C3 says that no call with a changed record is made.
\<close>

theorem C3_failed_read_calls_onChange:
  "readers (handleAvatarUpload 0 (Some [File ''a.png'']) empty_form) = [(File ''a.png'', 0)]
   \<and> onChange_calls empty_form = []
   \<and> onChange_calls
        (FileReader_loadend 0 Null (handleAvatarUpload 0 (Some [File ''a.png'']) empty_form))
       = [1]
   \<and> store empty_form 0 Avatar = None
   \<and> store (FileReader_loadend 0 Null (handleAvatarUpload 0 (Some [File ''a.png'']) empty_form))
        1 Avatar = Some Null
   \<and> avatarPreview
        (FileReader_loadend 0 Null (handleAvatarUpload 0 (Some [File ''a.png'']) empty_form))
       = Null"
  by (simp add: empty_form_def handleAvatarUpload_def first_file_def FileReader_loadend_def
        onloadend_def PersonalInfoForm_handleChange_def)

text \<open>
  C5. When a file is selected and its read completes with a result \<open>url\<close>, the preview
  is set to \<open>url\<close> and \<^verbatim>\<open>onChange\<close> is called once, with a record whose avatar is the
  same \<open>url\<close>.
\<close>

theorem C5_preview_equals_avatar:
  "avatarPreview
     (FileReader_loadend (length (readers s)) (Str url) (handleAvatarUpload d (Some (f # fs)) s))
     = Str url
   \<and> onChange_calls
       (FileReader_loadend (length (readers s)) (Str url) (handleAvatarUpload d (Some (f # fs)) s))
     = onChange_calls s @ [next_addr s]
   \<and> store
       (FileReader_loadend (length (readers s)) (Str url) (handleAvatarUpload d (Some (f # fs)) s))
       (next_addr s) Avatar
     = Some (Str url)
   \<and> avatarPreview (onloadend d (Str url) s) = Str url
   \<and> store (onloadend d (Str url) s) (next_addr s) Avatar = Some (Str url)"
  by (simp add: FileReader_loadend_def handleAvatarUpload_def first_file_def onloadend_def
        PersonalInfoForm_handleChange_def)

text \<open>
  C6. From any state, \<^verbatim>\<open>handleRemoveAvatar\<close> sets the preview to \<^verbatim>\<open>null\<close>, calls
  \<^verbatim>\<open>onChange\<close> once with a record whose avatar is the empty string and whose other
  fields are those of \<^verbatim>\<open>data\<close>, and sets the value of the file input, when it is
  mounted, to the empty string.
\<close>

theorem C6_handleRemoveAvatar:
  "avatarPreview (handleRemoveAvatar d s) = Null
   \<and> onChange_calls (handleRemoveAvatar d s) = onChange_calls s @ [next_addr s]
   \<and> store (handleRemoveAvatar d s) (next_addr s) Avatar = Some (Str '''')
   \<and> (\<forall>F. F \<noteq> Avatar \<longrightarrow> store (handleRemoveAvatar d s) (next_addr s) F = store s d F)
   \<and> (fileInput s \<noteq> None \<longrightarrow> fileInput (handleRemoveAvatar d s) = Some '''')
   \<and> (fileInput s = None \<longrightarrow> fileInput (handleRemoveAvatar d s) = None)"
  by (auto simp: handleRemoveAvatar_def PersonalInfoForm_handleChange_def Let_def
           split: option.splits)

theorem C6_handleRemoveAvatar_witness:
  "avatarPreview loaded_form \<noteq> Null
   \<and> avatarPreview (handleRemoveAvatar 0 loaded_form) = Null
   \<and> onChange_calls (handleRemoveAvatar 0 loaded_form) = [1]
   \<and> store (handleRemoveAvatar 0 loaded_form) 1 Avatar = Some (Str '''')
   \<and> Name \<noteq> Avatar
   \<and> store (handleRemoveAvatar 0 loaded_form) 1 Name = Some (Str ''Ann'')
   \<and> fileInput loaded_form \<noteq> None
   \<and> fileInput (handleRemoveAvatar 0 loaded_form) = Some ''''"
  using C6_handleRemoveAvatar [of 0 loaded_form]
  by (simp add: loaded_form_def)

end
